theory Spec2Isabelle
  imports Main
begin

section \<open>Data model of module-tunnel-sink-new.c\<close>

text \<open>
  Pointers of the C code are handles; a NULL pointer is \<open>None\<close>. The unsigned sizes
  (\<open>size_t\<close>, \<open>pa_usec_t\<close>) are natural numbers: the module never does arithmetic on
  them, it only compares them with 0 and passes them on. \<open>int\<close> return codes are
  integers.
\<close>

type_synonym handle = nat

text \<open>The states named by the switch of \<open>context_state_callback\<close>.\<close>

datatype pa_context_state =
    PA_CONTEXT_UNCONNECTED
  | PA_CONTEXT_CONNECTING
  | PA_CONTEXT_AUTHORIZING
  | PA_CONTEXT_SETTING_NAME
  | PA_CONTEXT_READY
  | PA_CONTEXT_FAILED
  | PA_CONTEXT_TERMINATED

text \<open>
  Modelled from the spec: the enumeration \<open>pa_stream_state_t\<close> and the macro
  \<open>PA_STREAM_IS_GOOD\<close> are declared in the client library's headers, which are not
  among the sources. The module itself names \<open>PA_STREAM_FAILED\<close> and
  \<open>PA_STREAM_TERMINATED\<close>; the spec (section 3) gives a stream the states Created,
  Corked, Running, Failed and Terminated, and (section 4.4) calls the first three good.
\<close>

datatype pa_stream_state =
    PA_STREAM_CREATED
  | PA_STREAM_CORKED
  | PA_STREAM_RUNNING
  | PA_STREAM_FAILED
  | PA_STREAM_TERMINATED

fun PA_STREAM_IS_GOOD :: "pa_stream_state \<Rightarrow> bool" where
  "PA_STREAM_IS_GOOD PA_STREAM_CREATED = True"
| "PA_STREAM_IS_GOOD PA_STREAM_CORKED = True"
| "PA_STREAM_IS_GOOD PA_STREAM_RUNNING = True"
| "PA_STREAM_IS_GOOD PA_STREAM_FAILED = False"
| "PA_STREAM_IS_GOOD PA_STREAM_TERMINATED = False"

text \<open>
  What a call of \<open>pa_stream_get_state\<close> does: it returns a state, or it does not
  return (an assertion of the library stops the process).
\<close>

datatype stream_query = Aborts | Reports pa_stream_state

text \<open>\<open>pa_memchunk\<close>: the Audio Buffer Cell.\<close>

record pa_memchunk =
  memblock :: "handle option"
  index_mc :: nat
  length_mc :: nat

text \<open>
  Modelled from the spec: \<open>pa_memchunk_reset\<close> is a function of the server core,
  not among the sources; the spec calls its effect "the cell reset to empty".
\<close>

definition pa_memchunk_reset :: pa_memchunk where
  "pa_memchunk_reset = \<lparr>memblock = None, index_mc = 0, length_mc = 0\<rparr>"

text \<open>\<open>struct userdata\<close>, field by field (\<open>thread_mq\<close> is an embedded struct:
  the flag says whether it is initialised).\<close>

record userdata =
  module :: handle
  sink :: "handle option"
  rtpoll :: "handle option"
  thread_mq :: bool
  thread :: "handle option"
  memchunk :: pa_memchunk
  auto_desc :: bool
  channels :: nat
  block_usec :: nat
  timestamp :: nat
  context_p :: "handle option"
  stream :: "handle option"
  connected :: bool

text \<open>Message codes that reach the module's queues.\<close>

datatype msg_code =
    PA_SINK_MESSAGE_GET_LATENCY
  | SINK_MESSAGE_PASS_SOCKET
  | SINK_MESSAGE_RIP_SOCKET
  | PA_MESSAGE_SHUTDOWN
  | PA_CORE_MESSAGE_UNLOAD_MODULE
  | Other_message nat

text \<open>
  The calls the module makes into the server core and the client library, in the order
  it makes them: the trace of a run.
\<close>

datatype action =
    Log_debug string
  | Log_warn int
  | Log_error string
  | Thread_mq_install
  | Sink_process_rewind nat
  | Rtclock_now
  | Stream_get_state "handle option"
  | Stream_is_corked "handle option"
  | Stream_cork "handle option" nat
  | Stream_writable_size "handle option"
  | Sink_render nat
  | Memblock_acquire "handle option"
  | Stream_write "handle option" nat nat nat
  | Memblock_release "handle option"
  | Memblock_unref "handle option"
  | Rtpoll_run
  | Asyncmsgq_post msg_code
  | Asyncmsgq_wait_for msg_code
  | Msg_discarded msg_code
  | Stream_unref handle
  | Context_unref handle
  | Stream_new "handle option"
  | Stream_connect_playback "handle option"
  | Context_new
  | Context_connect string
  | Sink_new string
  | Sink_put handle
  | Sink_unlink handle
  | Asyncmsgq_send msg_code
  | Stream_disconnect handle
  | Context_disconnect handle

section \<open>What the module cannot see: parameters and observations\<close>

text \<open>
  The answer of \<open>pa_stream_get_latency\<close>: its return code, and the latency and the
  sign it stores.
\<close>

record latency_obs =
  lat_ret :: int
  lat_usec :: nat
  lat_negative :: int

text \<open>
  The sink's state type \<open>pa_sink_state_t\<close> and the macros \<open>PA_SINK_IS_OPENED\<close> and
  \<open>PA_SINK_IS_LINKED\<close> are declared in the server core, not among the sources: the
  state type is the type parameter \<open>'s\<close> and the macros are parameters. So are the
  answers of \<open>pa_stream_get_state\<close> and \<open>pa_stream_get_latency\<close> for a NULL
  handle, which the module asks for once the stream slot has been cleared
  (\<open>None\<close>: the call does not return).
\<close>

record 's ext =
  PA_SINK_IS_OPENED :: "'s \<Rightarrow> bool"
  PA_SINK_IS_LINKED :: "'s \<Rightarrow> bool"
  null_stream_state :: stream_query
  null_stream_latency :: "latency_obs option"

text \<open>
  What one iteration of the render loop reads from outside: the sink's thread_info
  fields, the library's answers about a live stream, the chunk the mixing graph
  renders, the return codes of the write and of the poll, and the messages the poll
  dispatches before it returns.
\<close>

record 's obs =
  obs_rewind_requested :: bool
  obs_sink_state :: 's
  obs_stream_state :: pa_stream_state
  obs_corked :: int
  obs_writable :: nat
  obs_rendered :: pa_memchunk
  obs_write_ret :: int
  obs_latency :: latency_obs
  obs_msgs :: "msg_code list"
  obs_poll :: int

definition pa_stream_get_state :: "'s ext \<Rightarrow> 's obs \<Rightarrow> handle option \<Rightarrow> stream_query" where
  "pa_stream_get_state x ob s =
     (case s of None \<Rightarrow> null_stream_state x | Some h \<Rightarrow> Reports (obs_stream_state ob))"

text \<open>
  The answer of \<open>pa_stream_get_latency\<close>; \<open>None\<close> when the call does not return.
\<close>

definition pa_stream_get_latency ::
    "'s ext \<Rightarrow> latency_obs \<Rightarrow> handle option \<Rightarrow> latency_obs option" where
  "pa_stream_get_latency x lat s =
     (case s of None \<Rightarrow> null_stream_latency x | Some h \<Rightarrow> Some lat)"

section \<open>The message handler\<close>

text \<open>
  \<open>sink_process_msg_cb\<close>. \<open>Handled ret stored\<close>: the handler returned \<open>ret\<close>
  after storing \<open>stored\<close> through the \<open>data\<close> pointer (\<open>None\<close>: nothing stored);
  \<open>Delegated\<close>: it returned what \<open>pa_sink_process_msg\<close> returns.
\<close>

datatype handled = Handled int "nat option" | Delegated | Handler_aborts

definition sink_process_msg_cb ::
    "'s ext \<Rightarrow> 's \<Rightarrow> latency_obs \<Rightarrow> msg_code \<Rightarrow> userdata \<Rightarrow> handled \<times> userdata" where
  "sink_process_msg_cb x st lat code u =
     (case code of
        PA_SINK_MESSAGE_GET_LATENCY \<Rightarrow>
          (if \<not> PA_SINK_IS_LINKED x st then (Handled 0 (Some 0), u)
           else (case pa_stream_get_latency x lat (stream u) of
                   None \<Rightarrow> (Handler_aborts, u)
                 | Some l \<Rightarrow>
                     (if lat_ret l < 0 then (Handled 0 (Some 0), u)
                      else (Handled 0 (Some (lat_usec l)), u))))
      | SINK_MESSAGE_PASS_SOCKET \<Rightarrow> (Handled 0 None, u\<lparr>connected := True\<rparr>)
      | _ \<Rightarrow> (Delegated, u))"

text \<open>
  Modelled from the spec: \<open>pa_rtpoll_run\<close> is a function of the server core, not
  among the sources. Section 4.4 says that the messages queued during the poll are
  dispatched before it returns; the sink's handler is \<open>sink_process_msg_cb\<close>.
\<close>

fun dispatch_msgs ::
    "'s ext \<Rightarrow> 's \<Rightarrow> latency_obs \<Rightarrow> msg_code list \<Rightarrow> userdata \<Rightarrow> userdata option" where
  "dispatch_msgs x st lat [] u = Some u"
| "dispatch_msgs x st lat (c # cs) u =
     (case sink_process_msg_cb x st lat c u of
        (Handler_aborts, u') \<Rightarrow> None
      | (r, u') \<Rightarrow> dispatch_msgs x st lat cs u')"

section \<open>The render loop\<close>

text \<open>How an iteration ends: the poll's three outcomes, or a failed assertion.\<close>

datatype status = Continue | Finish | Fail | Abort

definition poll_status :: "int \<Rightarrow> status" where
  "poll_status ret = (if ret < 0 then Fail else if ret = 0 then Finish else Continue)"

text \<open>
  The condition of the \<open>if\<close> at lines 119 to 121, with C's left-to-right evaluation:
  the stream's state is asked for only when \<open>connected\<close> is set. \<open>None\<close>: the query
  did not return.
\<close>

definition gate :: "'s ext \<Rightarrow> 's obs \<Rightarrow> userdata \<Rightarrow> bool option" where
  "gate x ob u =
     (if \<not> connected u then Some False
      else (case pa_stream_get_state x ob (stream u) of
              Aborts \<Rightarrow> None
            | Reports s \<Rightarrow>
                Some (PA_STREAM_IS_GOOD s \<and> PA_SINK_IS_OPENED x (obs_sink_state ob))))"

text \<open>
  The body of that \<open>if\<close>, lines 124 to 153. The first component is False when
  \<open>pa_assert(u->memchunk.length > 0)\<close> fails.
\<close>

definition transmit :: "'s obs \<Rightarrow> userdata \<Rightarrow> bool \<times> userdata \<times> action list" where
  "transmit ob u =
     (if obs_corked ob \<noteq> 0 then
        (True, u, [Stream_is_corked (stream u), Stream_cork (stream u) 0])
      else if obs_writable ob > 0 then
        (let rend = (length_mc (memchunk u) \<le> 0);
             mc = (if rend then obs_rendered ob else memchunk u);
             pre = [Stream_is_corked (stream u), Stream_writable_size (stream u)] @
                   (if rend then [Sink_render (obs_writable ob)] else [])
         in if \<not> length_mc mc > 0 then (False, u\<lparr>memchunk := mc\<rparr>, pre)
            else (True, u\<lparr>memchunk := pa_memchunk_reset\<rparr>,
                  pre @
                  [Memblock_acquire (memblock mc),
                   Stream_write (stream u) (index_mc mc) (length_mc mc) 0,
                   Memblock_release (memblock mc),
                   Memblock_unref (memblock mc)] @
                  (if obs_write_ret ob \<noteq> 0 then [Log_warn (obs_write_ret ob)] else [])))
      else (True, u, [Stream_is_corked (stream u), Stream_writable_size (stream u)]))"

text \<open>One pass through the body of \<open>for(;;)\<close>, lines 106 to 161.\<close>

definition thread_iter ::
    "'s ext \<Rightarrow> 's obs \<Rightarrow> userdata \<Rightarrow> status \<times> userdata \<times> action list" where
  "thread_iter x ob u =
     (let a0 = (if obs_rewind_requested ob then [Sink_process_rewind 0] else []) @
               (if PA_SINK_IS_OPENED x (obs_sink_state ob) then [Rtclock_now] else []) @
               (if connected u then [Stream_get_state (stream u)] else [])
      in case gate x ob u of
           None \<Rightarrow> (Abort, u, a0)
         | Some g \<Rightarrow>
             (case (if g then transmit ob u else (True, u, [])) of
                (False, u1, a1) \<Rightarrow> (Abort, u1, a0 @ a1)
              | (True, u1, a1) \<Rightarrow>
                  (case dispatch_msgs x (obs_sink_state ob) (obs_latency ob) (obs_msgs ob) u1 of
                     None \<Rightarrow> (Abort, u1, a0 @ a1 @ [Rtpoll_run])
                   | Some u2 \<Rightarrow> (poll_status (obs_poll ob), u2, a0 @ a1 @ [Rtpoll_run]))))"

text \<open>
  The loop, one observation per iteration. The list is the fuel: when it runs out
  the loop is still going round, which is the status \<open>Continue\<close>.
\<close>

fun thread_loop ::
    "'s ext \<Rightarrow> 's obs list \<Rightarrow> userdata \<Rightarrow> status \<times> userdata \<times> action list" where
  "thread_loop x [] u = (Continue, u, [])"
| "thread_loop x (ob # obs) u =
     (case thread_iter x ob u of
        (Continue, u', a) \<Rightarrow>
          (case thread_loop x obs u' of (st, u'', b) \<Rightarrow> (st, u'', a @ b))
      | (st, u', a) \<Rightarrow> (st, u', a))"

text \<open>
  Modelled from the spec: \<open>pa_asyncmsgq_wait_for\<close> is a function of the server core,
  not among the sources. Section 4.4 says that it blocks, discarding other traffic,
  until the awaited message arrives. The queue is the list of the messages that will
  arrive; the result is the messages discarded and the rest of the queue, and \<open>None\<close>
  when the awaited message never arrives: the call never returns.
\<close>

fun pa_asyncmsgq_wait_for ::
    "msg_code list \<Rightarrow> msg_code \<Rightarrow> (msg_code list \<times> msg_code list) option" where
  "pa_asyncmsgq_wait_for [] code = None"
| "pa_asyncmsgq_wait_for (m # ms) code =
     (if m = code then Some ([], ms)
      else (case pa_asyncmsgq_wait_for ms code of
              None \<Rightarrow> None
            | Some (d, r) \<Rightarrow> Some (m # d, r)))"

text \<open>How the thread function ends, if it does.\<close>

datatype ending = Exited | Aborted | Still_looping | Blocked_for_ever

text \<open>
  \<open>thread_func\<close>: \<open>t0\<close> is the clock at the start, \<open>obs\<close> the observations of the
  iterations, \<open>inq\<close> the messages that arrive on the inbound queue once the loop has
  been left through \<open>fail\<close>.
\<close>

definition thread_func ::
    "'s ext \<Rightarrow> nat \<Rightarrow> 's obs list \<Rightarrow> msg_code list \<Rightarrow> userdata
      \<Rightarrow> ending \<times> userdata \<times> action list" where
  "thread_func x t0 obs inq u =
     (let start = [Log_debug ''Tunnelstream: Thread starting up'', Thread_mq_install, Rtclock_now]
      in case thread_loop x obs (u\<lparr>timestamp := t0\<rparr>) of
           (Continue, u', a) \<Rightarrow> (Still_looping, u', start @ a)
         | (Abort, u', a) \<Rightarrow> (Aborted, u', start @ a)
         | (Finish, u', a) \<Rightarrow> (Exited, u', start @ a @ [Log_debug ''Thread shutting down''])
         | (Fail, u', a) \<Rightarrow>
             (case pa_asyncmsgq_wait_for inq PA_MESSAGE_SHUTDOWN of
                None \<Rightarrow>
                  (Blocked_for_ever, u',
                   start @ a @ [Asyncmsgq_post PA_CORE_MESSAGE_UNLOAD_MODULE,
                                Asyncmsgq_wait_for PA_MESSAGE_SHUTDOWN] @ map Msg_discarded inq)
              | Some (d, r) \<Rightarrow>
                  (Exited, u',
                   start @ a @ [Asyncmsgq_post PA_CORE_MESSAGE_UNLOAD_MODULE,
                                Asyncmsgq_wait_for PA_MESSAGE_SHUTDOWN] @ map Msg_discarded d @
                   [Log_debug ''Thread shutting down''])))"

section \<open>The callbacks of the client library\<close>

text \<open>
  \<open>stream_state_callback\<close>: \<open>s\<close> is the stream the library calls back for and \<open>st\<close>
  the state \<open>pa_stream_get_state\<close> reports for it. The first component is False when
  \<open>pa_assert(stream == u->stream)\<close> fails.
\<close>

definition stream_state_callback ::
    "handle \<Rightarrow> pa_stream_state \<Rightarrow> userdata \<Rightarrow> bool \<times> userdata \<times> action list" where
  "stream_state_callback s st u =
     (if stream u \<noteq> Some s then (False, u, [])
      else (case st of
              PA_STREAM_FAILED \<Rightarrow>
                (True, u\<lparr>stream := None\<rparr>, [Log_debug ''Context failed.'', Stream_unref s])
            | PA_STREAM_TERMINATED \<Rightarrow>
                (True, u\<lparr>stream := None\<rparr>, [Log_debug ''Context terminated.'', Stream_unref s])
            | _ \<Rightarrow> (True, u, [])))"

text \<open>
  \<open>context_state_callback\<close>: \<open>c\<close> is the context called back for, \<open>st\<close> its state and
  \<open>ns\<close> what \<open>pa_stream_new_with_proplist\<close> returns. The first component is False
  when \<open>pa_assert(u->context == c)\<close> or \<open>pa_assert(!u->stream)\<close> fails.
\<close>

definition context_state_callback ::
    "handle \<Rightarrow> pa_context_state \<Rightarrow> handle option \<Rightarrow> userdata \<Rightarrow> bool \<times> userdata \<times> action list" where
  "context_state_callback c st ns u =
     (if context_p u \<noteq> Some c then (False, u, [])
      else (case st of
              PA_CONTEXT_UNCONNECTED \<Rightarrow> (True, u, [Log_debug ''Connection unconnected''])
            | PA_CONTEXT_CONNECTING \<Rightarrow> (True, u, [Log_debug ''Connection unconnected''])
            | PA_CONTEXT_AUTHORIZING \<Rightarrow> (True, u, [Log_debug ''Connection unconnected''])
            | PA_CONTEXT_SETTING_NAME \<Rightarrow> (True, u, [Log_debug ''Connection unconnected''])
            | PA_CONTEXT_READY \<Rightarrow>
                (if stream u \<noteq> None then
                   (False, u, [Log_debug ''Connection successful. Creating stream.''])
                 else
                   (True, u\<lparr>stream := ns\<rparr>,
                    [Log_debug ''Connection successful. Creating stream.'',
                     Stream_new ns,
                     Stream_connect_playback ns,
                     Asyncmsgq_post SINK_MESSAGE_PASS_SOCKET]))
            | PA_CONTEXT_FAILED \<Rightarrow>
                (True, u\<lparr>context_p := None, connected := False\<rparr>,
                 [Log_debug ''Context failed.'', Context_unref c])
            | PA_CONTEXT_TERMINATED \<Rightarrow>
                (True, u\<lparr>context_p := None, connected := False\<rparr>,
                 [Log_debug ''Context terminated.'', Context_unref c])))"

section \<open>Module activation and teardown\<close>

text \<open>
  The resources the module allocates and frees. The world keeps the live ones, the
  ones freed while not live, and the trace of the other calls.
\<close>

datatype res =
    Modargs | Proplist | Userdata | Rtpoll | Thread_mq_res | Sink_new_data | Sink_res
  | Context_res | Thread_res | Memblock_res

record world =
  live :: "res list"
  double_free :: "res list"
  trace :: "action list"

definition alloc :: "res \<Rightarrow> world \<Rightarrow> world" where
  "alloc r w = w\<lparr>live := r # live w\<rparr>"

definition release :: "res \<Rightarrow> world \<Rightarrow> world" where
  "release r w =
     (if r \<in> set (live w) then w\<lparr>live := remove1 r (live w)\<rparr>
      else w\<lparr>double_free := r # double_free w\<rparr>)"

definition emit :: "action \<Rightarrow> world \<Rightarrow> world" where
  "emit a w = w\<lparr>trace := trace w @ [a]\<rparr>"

text \<open>\<open>pa_module\<close>: the one field the module uses.\<close>

record pa_module =
  m_userdata :: "userdata option"

text \<open>
  What the calls of \<open>pa__init\<close> into the server core and the client library return:
  a pointer (NULL is \<open>None\<close>) or a return code.
\<close>

record init_env =
  env_module :: handle
  env_modargs :: "handle option"
  env_spec_ret :: int
  env_remote_server :: "string option"
  env_sink_name :: "string option"
  env_rtpoll :: handle
  env_proplist_ret :: int
  env_sink :: "handle option"
  env_context :: "handle option"
  env_connect_ret :: int
  env_thread :: "handle option"

definition DEFAULT_SINK_NAME :: string where
  "DEFAULT_SINK_NAME = ''remote_sink''"

text \<open>\<open>pa_xnew0(struct userdata, 1)\<close>: every field zero.\<close>

definition userdata0 :: userdata where
  "userdata0 =
     \<lparr>module = 0, sink = None, rtpoll = None, thread_mq = False, thread = None,
      memchunk = \<lparr>memblock = None, index_mc = 0, length_mc = 0\<rparr>,
      auto_desc = False, channels = 0, block_usec = 0, timestamp = 0,
      context_p = None, stream = None, connected = False\<rparr>"

text \<open>\<open>pa__done\<close>, lines 425 to 459. It leaves \<open>m->userdata\<close> as it is.\<close>

definition pa__done :: "pa_module \<Rightarrow> world \<Rightarrow> pa_module \<times> world" where
  "pa__done m w =
     (case m_userdata m of
        None \<Rightarrow> (m, w)
      | Some u \<Rightarrow>
          (let w1 = (case sink u of None \<Rightarrow> w | Some s \<Rightarrow> emit (Sink_unlink s) w);
               w2 = (case thread u of
                       None \<Rightarrow> w1
                     | Some t \<Rightarrow> release Thread_res (emit (Asyncmsgq_send PA_MESSAGE_SHUTDOWN) w1));
               w3 = release Thread_mq_res w2;
               w4 = (case stream u of None \<Rightarrow> w3 | Some s \<Rightarrow> emit (Stream_disconnect s) w3);
               w5 = (case context_p u of None \<Rightarrow> w4 | Some c \<Rightarrow> emit (Context_disconnect c) w4);
               w6 = (case rtpoll u of None \<Rightarrow> w5 | Some r \<Rightarrow> release Rtpoll w5);
               w7 = (case memblock (memchunk u) of None \<Rightarrow> w6 | Some b \<Rightarrow> release Memblock_res w6);
               w8 = (case sink u of None \<Rightarrow> w7 | Some s \<Rightarrow> release Sink_res w7)
           in (m, release Userdata w8)))"

text \<open>
  The \<open>fail\<close> label of \<open>pa__init\<close>, lines 413 to 422; \<open>ma\<close> and \<open>proplist\<close> say
  whether the local pointers of these names are non-NULL there.
\<close>

definition init_fail :: "bool \<Rightarrow> bool \<Rightarrow> pa_module \<Rightarrow> world \<Rightarrow> int \<times> pa_module \<times> world" where
  "init_fail ma proplist m w =
     (let w1 = (if ma then release Modargs w else w);
          w2 = (if proplist then release Proplist w1 else w1)
      in case pa__done m w2 of (m', w3) \<Rightarrow> (- 1, m', w3))"

text \<open>
  \<open>pa__init\<close> in three parts: lines 384 to 411 (the client context and the thread),
  lines 326 to 382 (the userdata and the sink), lines 308 to 324 (the arguments). The
  local \<open>proplist\<close> keeps its value after \<open>pa_proplist_free\<close> at line 392, so the
  \<open>fail\<close> label frees it again on the two later failures.
\<close>

definition init_context ::
    "init_env \<Rightarrow> string \<Rightarrow> handle \<Rightarrow> userdata \<Rightarrow> pa_module \<Rightarrow> world \<Rightarrow> int \<times> pa_module \<times> world" where
  "init_context e srv s u m w =
     (case env_context e of
        None \<Rightarrow>
          init_fail True True (m\<lparr>m_userdata := Some u\<rparr>)
            (emit (Log_error ''Failed to create libpulse context'') (emit Context_new w))
      | Some c \<Rightarrow>
          (let u1 = u\<lparr>context_p := Some c\<rparr>;
               w1 = emit (Context_connect srv)
                      (release Proplist (alloc Context_res (emit Context_new w)))
           in if env_connect_ret e < 0 then
                init_fail True True (m\<lparr>m_userdata := Some u1\<rparr>)
                  (emit (Log_error ''Failed to connect libpulse context'') w1)
              else (case env_thread e of
                      None \<Rightarrow>
                        init_fail True True (m\<lparr>m_userdata := Some u1\<rparr>)
                          (emit (Log_error ''Failed to create thread.'') w1)
                    | Some t \<Rightarrow>
                        (0, m\<lparr>m_userdata := Some (u1\<lparr>thread := Some t\<rparr>)\<rparr>,
                         release Modargs (emit (Sink_put s) (alloc Thread_res w1))))))"

definition init_sink ::
    "init_env \<Rightarrow> string \<Rightarrow> pa_module \<Rightarrow> world \<Rightarrow> int \<times> pa_module \<times> world" where
  "init_sink e srv m w =
     (let u = userdata0\<lparr>module := env_module e, memchunk := pa_memchunk_reset,
                        rtpoll := Some (env_rtpoll e), thread_mq := True\<rparr>;
          w1 = alloc Sink_new_data (alloc Thread_mq_res (alloc Rtpoll (alloc Userdata w)));
          name = (case env_sink_name e of None \<Rightarrow> DEFAULT_SINK_NAME | Some n \<Rightarrow> n)
      in if env_proplist_ret e < 0 then
           init_fail True False (m\<lparr>m_userdata := Some u\<rparr>)
             (release Sink_new_data (emit (Log_error ''Invalid properties'') w1))
         else (case env_sink e of
                 None \<Rightarrow>
                   init_fail True False (m\<lparr>m_userdata := Some u\<rparr>)
                     (release Sink_new_data
                        (emit (Log_error ''Failed to create sink.'') (emit (Sink_new name) w1)))
               | Some s \<Rightarrow>
                   init_context e srv s (u\<lparr>sink := Some s\<rparr>) m
                     (alloc Proplist
                        (release Sink_new_data (alloc Sink_res (emit (Sink_new name) w1))))))"

definition pa__init :: "init_env \<Rightarrow> pa_module \<Rightarrow> world \<Rightarrow> int \<times> pa_module \<times> world" where
  "pa__init e m w =
     (case env_modargs e of
        None \<Rightarrow> init_fail False False m (emit (Log_error ''Failed to parse module arguments.'') w)
      | Some ma \<Rightarrow>
          (let w1 = alloc Modargs w
           in if env_spec_ret e < 0 then
                init_fail True False m
                  (emit (Log_error ''Invalid sample format specification or channel map'') w1)
              else (case env_remote_server e of
                      None \<Rightarrow>
                        init_fail True False m (emit (Log_error ''No remote_server given!'') w1)
                    | Some srv \<Rightarrow> init_sink e srv m w1)))"

section \<open>Reading results and traces\<close>

abbreviation status_of :: "'a \<times> 'b \<times> 'c \<Rightarrow> 'a" where "status_of r \<equiv> fst r"
abbreviation state_of :: "'a \<times> 'b \<times> 'c \<Rightarrow> 'b" where "state_of r \<equiv> fst (snd r)"
abbreviation actions_of :: "'a \<times> 'b \<times> 'c \<Rightarrow> 'c" where "actions_of r \<equiv> snd (snd r)"

fun is_render :: "action \<Rightarrow> bool" where
  "is_render (Sink_render n) = True"
| "is_render a = False"

fun is_write :: "action \<Rightarrow> bool" where
  "is_write (Stream_write h i l off) = True"
| "is_write a = False"

fun is_transmit_action :: "action \<Rightarrow> bool" where
  "is_transmit_action (Stream_is_corked h) = True"
| "is_transmit_action (Stream_cork h b) = True"
| "is_transmit_action (Stream_writable_size h) = True"
| "is_transmit_action (Sink_render n) = True"
| "is_transmit_action (Memblock_acquire m) = True"
| "is_transmit_action (Stream_write h i l off) = True"
| "is_transmit_action (Memblock_release m) = True"
| "is_transmit_action (Memblock_unref m) = True"
| "is_transmit_action (Log_warn r) = True"
| "is_transmit_action a = False"

fun is_connect :: "action \<Rightarrow> bool" where
  "is_connect Context_new = True"
| "is_connect (Context_connect srv) = True"
| "is_connect (Stream_new h) = True"
| "is_connect (Stream_connect_playback h) = True"
| "is_connect a = False"

text \<open>
  The cell an iteration writes when it writes: the one it has just rendered when it held
  none, else the one it held.
\<close>

definition cell_written :: "'s obs \<Rightarrow> userdata \<Rightarrow> pa_memchunk" where
  "cell_written ob u = (if length_mc (memchunk u) \<le> 0 then obs_rendered ob else memchunk u)"

section \<open>Concrete inputs\<close>

text \<open>
  A sink whose state is a flag (opened and linked, or neither), a library that stops on
  a NULL stream, a connected module and one observation of a writable stream.
\<close>

definition ext_ex :: "bool ext" where
  "ext_ex = \<lparr>PA_SINK_IS_OPENED = (\<lambda>s. s), PA_SINK_IS_LINKED = (\<lambda>s. s),
             null_stream_state = Aborts, null_stream_latency = None\<rparr>"

definition u_ex :: userdata where
  "u_ex = userdata0\<lparr>module := 1, sink := Some 2, rtpoll := Some 3, thread_mq := True,
                    thread := Some 4, context_p := Some 5, stream := Some 6,
                    connected := True\<rparr>"

text \<open>The userdata as a successful \<open>pa__init\<close> leaves it: no stream yet.\<close>

definition u_init :: userdata where
  "u_init = userdata0\<lparr>module := 1, sink := Some 2, rtpoll := Some 3, thread_mq := True,
                      thread := Some 4, context_p := Some 5\<rparr>"

definition lat_ex :: latency_obs where
  "lat_ex = \<lparr>lat_ret = 0, lat_usec = 2500, lat_negative = 0\<rparr>"

definition ob_ex :: "bool obs" where
  "ob_ex = \<lparr>obs_rewind_requested = False, obs_sink_state = True,
            obs_stream_state = PA_STREAM_RUNNING, obs_corked = 0, obs_writable = 4096,
            obs_rendered = \<lparr>memblock = Some 7, index_mc = 0, length_mc = 4096\<rparr>,
            obs_write_ret = 0, obs_latency = lat_ex, obs_msgs = [SINK_MESSAGE_PASS_SOCKET],
            obs_poll = 1\<rparr>"

definition e_ex :: init_env where
  "e_ex = \<lparr>env_module = 1, env_modargs = Some 8, env_spec_ret = 0, env_remote_server = None,
           env_sink_name = None, env_rtpoll = 3, env_proplist_ret = 0, env_sink = Some 2,
           env_context = Some 5, env_connect_ret = 0, env_thread = Some 4\<rparr>"

definition w_ex :: world where
  "w_ex = \<lparr>live = [], double_free = [], trace = []\<rparr>"

section \<open>Properties\<close>

text \<open>The concrete inputs, evaluated.\<close>

lemmas ex_defs = ext_ex_def u_ex_def ob_ex_def lat_ex_def userdata0_def pa_memchunk_reset_def

lemma thread_iter_ex:
  "thread_iter ext_ex ob_ex u_ex =
     (Continue, u_ex,
      [Rtclock_now, Stream_get_state (Some 6), Stream_is_corked (Some 6),
       Stream_writable_size (Some 6), Sink_render 4096, Memblock_acquire (Some 7),
       Stream_write (Some 6) 0 4096 0, Memblock_release (Some 7), Memblock_unref (Some 7),
       Rtpoll_run])"
  by (simp add: thread_iter_def gate_def transmit_def pa_stream_get_state_def poll_status_def
        sink_process_msg_cb_def Let_def ex_defs)

lemma thread_iter_ex_fail:
  "thread_iter ext_ex (ob_ex\<lparr>obs_poll := - 1\<rparr>) u_ex =
     (Fail, u_ex,
      [Rtclock_now, Stream_get_state (Some 6), Stream_is_corked (Some 6),
       Stream_writable_size (Some 6), Sink_render 4096, Memblock_acquire (Some 7),
       Stream_write (Some 6) 0 4096 0, Memblock_release (Some 7), Memblock_unref (Some 7),
       Rtpoll_run])"
  by (simp add: thread_iter_def gate_def transmit_def pa_stream_get_state_def poll_status_def
        sink_process_msg_cb_def Let_def ex_defs)

lemma thread_iter_ex_warn:
  "thread_iter ext_ex (ob_ex\<lparr>obs_write_ret := - 5\<rparr>) u_ex =
     (Continue, u_ex,
      [Rtclock_now, Stream_get_state (Some 6), Stream_is_corked (Some 6),
       Stream_writable_size (Some 6), Sink_render 4096, Memblock_acquire (Some 7),
       Stream_write (Some 6) 0 4096 0, Memblock_release (Some 7), Memblock_unref (Some 7),
       Log_warn (- 5), Rtpoll_run])"
  by (simp add: thread_iter_def gate_def transmit_def pa_stream_get_state_def poll_status_def
        sink_process_msg_cb_def Let_def ex_defs)

text \<open>The shape of an iteration's trace.\<close>

lemma transmit_nonempty: "list_ex is_transmit_action (actions_of (transmit ob u))"
  by (simp add: transmit_def Let_def)

lemma thread_iter_actions:
  "actions_of (thread_iter x ob u) =
     (if obs_rewind_requested ob then [Sink_process_rewind 0] else []) @
     (if PA_SINK_IS_OPENED x (obs_sink_state ob) then [Rtclock_now] else []) @
     (if connected u then [Stream_get_state (stream u)] else []) @
     (case gate x ob u of
        None \<Rightarrow> []
      | Some False \<Rightarrow> [Rtpoll_run]
      | Some True \<Rightarrow>
          actions_of (transmit ob u) @ (if fst (transmit ob u) then [Rtpoll_run] else []))"
  by (cases "transmit ob u")
     (simp add: thread_iter_def Let_def split: option.splits bool.splits)

lemma gate_Some_True:
  "gate x ob u = Some True \<longleftrightarrow>
     connected u \<and>
     (\<exists>s. pa_stream_get_state x ob (stream u) = Reports s \<and>
          s \<in> {PA_STREAM_CREATED, PA_STREAM_CORKED, PA_STREAM_RUNNING}) \<and>
     PA_SINK_IS_OPENED x (obs_sink_state ob)"
proof (cases "pa_stream_get_state x ob (stream u)")
  case Aborts
  then show ?thesis by (simp add: gate_def)
next
  case (Reports s)
  then show ?thesis by (cases s) (auto simp: gate_def)
qed

subsection \<open>The state gate\<close>

text \<open>
  Claim C1. In every iteration of the render loop the transmit branch (the cork query
  and the uncork, the writable-size query, the render, the write and its release) is
  entered exactly when \<open>connected\<close> is set, the state reported for the stream is Created,
  Corked or Running, and the sink is opened. For every other combination of the flag,
  the stream's state and the sink's state, none of these calls is made.
\<close>

theorem state_gate:
  "list_ex is_transmit_action (actions_of (thread_iter x ob u)) \<longleftrightarrow>
     connected u \<and>
     (\<exists>s. pa_stream_get_state x ob (stream u) = Reports s \<and>
          s \<in> {PA_STREAM_CREATED, PA_STREAM_CORKED, PA_STREAM_RUNNING}) \<and>
     PA_SINK_IS_OPENED x (obs_sink_state ob)"
proof -
  have "list_ex is_transmit_action (actions_of (thread_iter x ob u)) \<longleftrightarrow>
          gate x ob u = Some True"
    using transmit_nonempty [of ob u]
    by (auto simp: thread_iter_actions split: option.splits bool.splits)
  then show ?thesis by (simp only: gate_Some_True)
qed

theorem state_gate_witness:
  "list_ex is_transmit_action (actions_of (thread_iter ext_ex ob_ex u_ex)) \<and>
   \<not> list_ex is_transmit_action
       (actions_of (thread_iter ext_ex ob_ex (u_ex\<lparr>connected := False\<rparr>))) \<and>
   \<not> list_ex is_transmit_action
       (actions_of (thread_iter ext_ex (ob_ex\<lparr>obs_stream_state := PA_STREAM_FAILED\<rparr>) u_ex)) \<and>
   \<not> list_ex is_transmit_action
       (actions_of (thread_iter ext_ex (ob_ex\<lparr>obs_sink_state := False\<rparr>) u_ex))"
  using state_gate [of ext_ex ob_ex u_ex]
    state_gate [of ext_ex ob_ex "u_ex\<lparr>connected := False\<rparr>"]
    state_gate [of ext_ex "ob_ex\<lparr>obs_stream_state := PA_STREAM_FAILED\<rparr>" u_ex]
    state_gate [of ext_ex "ob_ex\<lparr>obs_sink_state := False\<rparr>" u_ex]
  by (simp add: pa_stream_get_state_def ex_defs)

lemma transmit_render_count:
  "length (filter is_render (actions_of (transmit ob u))) =
     (if obs_corked ob = 0 \<and> 0 < obs_writable ob \<and> length_mc (memchunk u) \<le> 0 then 1 else 0)"
  by (simp add: transmit_def Let_def)

lemma transmit_no_write_when_full:
  "obs_writable ob = 0 \<Longrightarrow> \<not> list_ex is_write (actions_of (transmit ob u))"
  by (simp add: transmit_def Let_def)

lemma thread_iter_render_count:
  "length (filter is_render (actions_of (thread_iter x ob u))) =
     (if gate x ob u = Some True \<and> obs_corked ob = 0 \<and> 0 < obs_writable ob \<and>
         length_mc (memchunk u) \<le> 0 then 1 else 0)"
proof (cases "gate x ob u = Some True")
  case True
  then have "filter is_render (actions_of (thread_iter x ob u)) =
               filter is_render (actions_of (transmit ob u))"
    by (simp add: thread_iter_actions)
  then show ?thesis using True by (simp only: transmit_render_count) simp
next
  case False
  then have "filter is_render (actions_of (thread_iter x ob u)) = []"
    by (simp add: thread_iter_actions split: option.splits bool.splits)
  then show ?thesis using False by simp
qed

lemma thread_iter_write:
  "list_ex is_write (actions_of (thread_iter x ob u)) \<longleftrightarrow>
     gate x ob u = Some True \<and> list_ex is_write (actions_of (transmit ob u))"
  by (simp add: thread_iter_actions split: option.splits bool.splits)

lemma thread_loop_render_count:
  "length (filter is_render (actions_of (thread_loop x obs u))) \<le>
     length (filter (\<lambda>ob. 0 < obs_writable ob) obs)"
proof (induction obs arbitrary: u)
  case Nil
  show ?case by simp
next
  case (Cons ob obs)
  obtain st u1 a where it: "thread_iter x ob u = (st, u1, a)"
    by (cases "thread_iter x ob u") auto
  have one: "length (filter is_render a) \<le> (if 0 < obs_writable ob then 1 else 0)"
    using thread_iter_render_count [of x ob u] it by (simp split: if_splits)
  show ?case
  proof (cases st)
    case Continue
    obtain st2 u2 b where lp: "thread_loop x obs u1 = (st2, u2, b)"
      by (cases "thread_loop x obs u1") auto
    have "length (filter is_render b) \<le> length (filter (\<lambda>ob. 0 < obs_writable ob) obs)"
      using Cons.IH [of u1] lp by simp
    with one show ?thesis using it Continue lp by (simp split: if_splits)
  next
    case Finish
    with one show ?thesis using it by (simp split: if_splits)
  next
    case Fail
    with one show ?thesis using it by (simp split: if_splits)
  next
    case Abort
    with one show ?thesis using it by (simp split: if_splits)
  qed
qed

subsection \<open>Backpressure\<close>

text \<open>
  Claim C2. An iteration in which the writable size is 0 makes no render call and no
  stream write; and over any run of the loop, the number of render calls is at most the
  number of iterations whose writable size is greater than 0.
\<close>

theorem backpressure:
  "(obs_writable ob = 0 \<longrightarrow>
       \<not> list_ex is_render (actions_of (thread_iter x ob u)) \<and>
       \<not> list_ex is_write (actions_of (thread_iter x ob u))) \<and>
   length (filter is_render (actions_of (thread_loop x obs u0))) \<le>
     length (filter (\<lambda>ob. 0 < obs_writable ob) obs)"
proof -
  have "\<not> list_ex is_render (actions_of (thread_iter x ob u))" if "obs_writable ob = 0"
  proof -
    have "length (filter is_render (actions_of (thread_iter x ob u))) = 0"
      using that by (simp add: thread_iter_render_count)
    then show ?thesis by (simp add: list_ex_iff filter_empty_conv)
  qed
  moreover have "\<not> list_ex is_write (actions_of (thread_iter x ob u))" if "obs_writable ob = 0"
    using that transmit_no_write_when_full [of ob u] by (simp add: thread_iter_write)
  ultimately show ?thesis using thread_loop_render_count [of x obs u0] by blast
qed

theorem backpressure_witness:
  "obs_writable (ob_ex\<lparr>obs_writable := 0\<rparr>) = 0 \<and>
   \<not> list_ex is_render (actions_of (thread_iter ext_ex (ob_ex\<lparr>obs_writable := 0\<rparr>) u_ex)) \<and>
   \<not> list_ex is_write (actions_of (thread_iter ext_ex (ob_ex\<lparr>obs_writable := 0\<rparr>) u_ex)) \<and>
   length (filter is_render
        (actions_of (thread_loop ext_ex [ob_ex\<lparr>obs_writable := 0\<rparr>, ob_ex] u_ex))) \<le> 1"
  using backpressure [where ob = "ob_ex\<lparr>obs_writable := 0\<rparr>" and x = ext_ex and u = u_ex
      and obs = "[ob_ex\<lparr>obs_writable := 0\<rparr>, ob_ex]" and ?u0.0 = u_ex]
  by (simp add: ob_ex_def)

text \<open>The handler and the poll change no field but \<open>connected\<close>.\<close>

lemma sink_process_msg_cb_frame:
  assumes "\<And>v b. f (v\<lparr>connected := b\<rparr>) = f v"
  shows "f (snd (sink_process_msg_cb x st lat c u)) = f u"
  using assms by (cases c) (simp_all add: sink_process_msg_cb_def split: option.splits)

lemma dispatch_msgs_frame:
  assumes "\<And>v b. f (v\<lparr>connected := b\<rparr>) = f v"
  shows "dispatch_msgs x st lat cs u = Some u' \<Longrightarrow> f u' = f u"
proof (induction cs arbitrary: u)
  case Nil
  then show ?case by simp
next
  case (Cons c cs)
  obtain r u1 where cb: "sink_process_msg_cb x st lat c u = (r, u1)"
    by (cases "sink_process_msg_cb x st lat c u") auto
  have u1: "f u1 = f u"
    using sink_process_msg_cb_frame [of f x st lat c u, OF assms] cb by simp
  have "dispatch_msgs x st lat cs u1 = Some u'"
    using Cons.prems cb by (cases r) simp_all
  then have "f u' = f u1" by (rule Cons.IH)
  then show ?case using u1 by simp
qed

lemma thread_iter_frame:
  assumes "\<And>v b. f (v\<lparr>connected := b\<rparr>) = f v"
  shows "f (state_of (thread_iter x ob u)) =
           f (if gate x ob u = Some True then state_of (transmit ob u) else u)"
proof -
  obtain ok u1 a1 where tr: "transmit ob u = (ok, u1, a1)"
    by (cases "transmit ob u") auto
  have dm: "f u2 = f v"
    if "dispatch_msgs x (obs_sink_state ob) (obs_latency ob) (obs_msgs ob) v = Some u2" for v u2
    using that by (rule dispatch_msgs_frame [of f, OF assms])
  show ?thesis
  proof (cases "gate x ob u")
    case None
    then show ?thesis by (simp add: thread_iter_def Let_def)
  next
    case (Some g)
    show ?thesis
    proof (cases g)
      case True
      show ?thesis
      proof (cases ok)
        case False
        then show ?thesis using Some True tr by (simp add: thread_iter_def Let_def)
      next
        case ok: True
        show ?thesis
        proof (cases "dispatch_msgs x (obs_sink_state ob) (obs_latency ob) (obs_msgs ob) u1")
          case None
          then show ?thesis using Some True tr ok by (simp add: thread_iter_def Let_def)
        next
          case (Some u2)
          then show ?thesis using \<open>gate x ob u = Some g\<close> True tr ok dm [OF Some]
            by (simp add: thread_iter_def Let_def)
        qed
      qed
    next
      case False
      show ?thesis
      proof (cases "dispatch_msgs x (obs_sink_state ob) (obs_latency ob) (obs_msgs ob) u")
        case None
        then show ?thesis using Some False by (simp add: thread_iter_def Let_def)
      next
        case (Some u2)
        then show ?thesis using \<open>gate x ob u = Some g\<close> False dm [OF Some]
          by (simp add: thread_iter_def Let_def)
      qed
    qed
  qed
qed

lemma thread_iter_memchunk:
  "memchunk (state_of (thread_iter x ob u)) =
     (if gate x ob u = Some True then memchunk (state_of (transmit ob u)) else memchunk u)"
  using thread_iter_frame [of memchunk x ob u] by simp

lemma thread_iter_render:
  "list_ex is_render (actions_of (thread_iter x ob u)) \<longleftrightarrow>
     gate x ob u = Some True \<and> list_ex is_render (actions_of (transmit ob u))"
  by (simp add: thread_iter_actions split: option.splits bool.splits)

lemma transmit_render_memchunk:
  "list_ex is_render (actions_of (transmit ob u)) \<Longrightarrow> fst (transmit ob u) \<Longrightarrow>
     memchunk (state_of (transmit ob u)) = pa_memchunk_reset"
  by (simp add: transmit_def Let_def split: if_splits)

lemma thread_iter_status_Abort:
  "gate x ob u = Some True \<Longrightarrow> \<not> fst (transmit ob u) \<Longrightarrow> status_of (thread_iter x ob u) = Abort"
  by (cases "transmit ob u") (simp add: thread_iter_def Let_def)

subsection \<open>At most one cell\<close>

text \<open>
  Claim C3. An iteration renders only when the held cell's length is 0 or less, never
  while it is greater than 0, and at most once; and a rendered cell is written and reset
  in the same iteration (unless the assertion on its length stops the thread), so no
  second cell is rendered while one is held.
\<close>

theorem at_most_one_cell:
  "(list_ex is_render (actions_of (thread_iter x ob u)) \<longrightarrow> length_mc (memchunk u) \<le> 0) \<and>
   (0 < length_mc (memchunk u) \<longrightarrow> \<not> list_ex is_render (actions_of (thread_iter x ob u))) \<and>
   length (filter is_render (actions_of (thread_iter x ob u))) \<le> 1 \<and>
   (list_ex is_render (actions_of (thread_iter x ob u)) \<and> status_of (thread_iter x ob u) \<noteq> Abort \<longrightarrow>
      memchunk (state_of (thread_iter x ob u)) = pa_memchunk_reset)"
proof -
  have cnt: "length (filter is_render (actions_of (thread_iter x ob u))) =
     (if gate x ob u = Some True \<and> obs_corked ob = 0 \<and> 0 < obs_writable ob \<and>
         length_mc (memchunk u) \<le> 0 then 1 else 0)"
    by (rule thread_iter_render_count)
  have ex: "list_ex is_render (actions_of (thread_iter x ob u)) \<longleftrightarrow>
              0 < length (filter is_render (actions_of (thread_iter x ob u)))"
    by (simp add: list_ex_iff filter_empty_conv)
  have a: "length_mc (memchunk u) \<le> 0" if "list_ex is_render (actions_of (thread_iter x ob u))"
    using that unfolding ex cnt by (simp split: if_splits)
  have c: "length (filter is_render (actions_of (thread_iter x ob u))) \<le> 1"
    unfolding cnt by simp
  have d: "memchunk (state_of (thread_iter x ob u)) = pa_memchunk_reset"
    if r: "list_ex is_render (actions_of (thread_iter x ob u))"
      and s: "status_of (thread_iter x ob u) \<noteq> Abort"
  proof -
    have g: "gate x ob u = Some True"
      using r unfolding ex cnt by (simp split: if_splits)
    have ok: "fst (transmit ob u)"
      using s thread_iter_status_Abort [OF g] by blast
    have "list_ex is_render (actions_of (transmit ob u))"
      using r by (simp add: thread_iter_render)
    then show ?thesis
      using transmit_render_memchunk ok g by (simp add: thread_iter_memchunk)
  qed
  from a c d show ?thesis by auto
qed

theorem at_most_one_cell_witness:
  "list_ex is_render (actions_of (thread_iter ext_ex ob_ex u_ex)) \<and>
   length_mc (memchunk u_ex) \<le> 0 \<and>
   status_of (thread_iter ext_ex ob_ex u_ex) \<noteq> Abort \<and>
   memchunk (state_of (thread_iter ext_ex ob_ex u_ex)) = pa_memchunk_reset"
  using at_most_one_cell [of ext_ex ob_ex u_ex]
  by (simp add: thread_iter_ex pa_memchunk_reset_def)

lemma transmit_write_trace:
  "list_ex is_write (actions_of (transmit ob u)) \<Longrightarrow>
     fst (transmit ob u) \<and>
     0 < length_mc (cell_written ob u) \<and>
     actions_of (transmit ob u) =
       [Stream_is_corked (stream u), Stream_writable_size (stream u)] @
       (if length_mc (memchunk u) \<le> 0 then [Sink_render (obs_writable ob)] else []) @
       [Memblock_acquire (memblock (cell_written ob u)),
        Stream_write (stream u) (index_mc (cell_written ob u)) (length_mc (cell_written ob u)) 0,
        Memblock_release (memblock (cell_written ob u)),
        Memblock_unref (memblock (cell_written ob u))] @
       (if obs_write_ret ob \<noteq> 0 then [Log_warn (obs_write_ret ob)] else [])"
  by (simp add: transmit_def Let_def cell_written_def split: if_splits)

lemma transmit_write_memchunk:
  "list_ex is_write (actions_of (transmit ob u)) \<Longrightarrow>
     memchunk (state_of (transmit ob u)) = pa_memchunk_reset"
  by (simp add: transmit_def Let_def split: if_splits)

lemma transmit_write_ret:
  "fst (transmit (ob\<lparr>obs_write_ret := r\<rparr>) u) = fst (transmit (ob\<lparr>obs_write_ret := 0\<rparr>) u) \<and>
   state_of (transmit (ob\<lparr>obs_write_ret := r\<rparr>) u) = state_of (transmit (ob\<lparr>obs_write_ret := 0\<rparr>) u) \<and>
   filter (\<lambda>a. a \<noteq> Log_warn r) (actions_of (transmit (ob\<lparr>obs_write_ret := r\<rparr>) u)) =
     actions_of (transmit (ob\<lparr>obs_write_ret := 0\<rparr>) u)"
  by (simp add: transmit_def Let_def)

lemma gate_write_ret: "gate x (ob\<lparr>obs_write_ret := r\<rparr>) u = gate x ob u"
  by (simp add: gate_def pa_stream_get_state_def split: option.splits stream_query.splits)

lemma thread_iter_write_ret:
  "status_of (thread_iter x (ob\<lparr>obs_write_ret := r\<rparr>) u) =
     status_of (thread_iter x (ob\<lparr>obs_write_ret := 0\<rparr>) u) \<and>
   state_of (thread_iter x (ob\<lparr>obs_write_ret := r\<rparr>) u) =
     state_of (thread_iter x (ob\<lparr>obs_write_ret := 0\<rparr>) u) \<and>
   filter (\<lambda>a. a \<noteq> Log_warn r) (actions_of (thread_iter x (ob\<lparr>obs_write_ret := r\<rparr>) u)) =
     actions_of (thread_iter x (ob\<lparr>obs_write_ret := 0\<rparr>) u)"
proof -
  obtain ok u1 a1 where t0: "transmit (ob\<lparr>obs_write_ret := 0\<rparr>) u = (ok, u1, a1)"
    by (cases "transmit (ob\<lparr>obs_write_ret := 0\<rparr>) u") auto
  obtain ok' u1' a1' where tr: "transmit (ob\<lparr>obs_write_ret := r\<rparr>) u = (ok', u1', a1')"
    by (cases "transmit (ob\<lparr>obs_write_ret := r\<rparr>) u") auto
  have same: "ok' = ok" "u1' = u1" "filter (\<lambda>a. a \<noteq> Log_warn r) a1' = a1"
    using transmit_write_ret [where ob = ob and r = r and u = u] t0 tr by simp_all
  show ?thesis
  proof (cases "gate x ob u")
    case None
    then show ?thesis by (simp add: thread_iter_def Let_def gate_write_ret)
  next
    case (Some g)
    show ?thesis
    proof (cases g)
      case False
      with Some show ?thesis
        by (simp add: thread_iter_def Let_def gate_write_ret split: option.splits)
    next
      case True
      show ?thesis
      proof (cases ok)
        case False
        with Some True t0 tr same show ?thesis
          by (simp add: thread_iter_def Let_def gate_write_ret)
      next
        case ok: True
        with Some True t0 tr same show ?thesis
          by (simp add: thread_iter_def Let_def gate_write_ret split: option.splits)
      qed
    qed
  qed
qed

lemma thread_iter_write_trace:
  assumes w: "list_ex is_write (actions_of (thread_iter x ob u))"
  shows "memchunk (state_of (thread_iter x ob u)) = pa_memchunk_reset \<and>
      0 < length_mc (cell_written ob u) \<and>
      actions_of (thread_iter x ob u) =
        (if obs_rewind_requested ob then [Sink_process_rewind 0] else []) @
        [Rtclock_now, Stream_get_state (stream u),
         Stream_is_corked (stream u), Stream_writable_size (stream u)] @
        (if length_mc (memchunk u) \<le> 0 then [Sink_render (obs_writable ob)] else []) @
        [Memblock_acquire (memblock (cell_written ob u)),
         Stream_write (stream u) (index_mc (cell_written ob u)) (length_mc (cell_written ob u)) 0,
         Memblock_release (memblock (cell_written ob u)),
         Memblock_unref (memblock (cell_written ob u))] @
        (if obs_write_ret ob \<noteq> 0 then [Log_warn (obs_write_ret ob)] else []) @
        [Rtpoll_run]"
proof -
  from w have g: "gate x ob u = Some True"
    and tw: "list_ex is_write (actions_of (transmit ob u))"
    by (simp_all add: thread_iter_write)
  from g have c: "connected u" and o: "PA_SINK_IS_OPENED x (obs_sink_state ob)"
    by (simp_all add: gate_Some_True)
  have mc: "memchunk (state_of (thread_iter x ob u)) = pa_memchunk_reset"
    using g transmit_write_memchunk [OF tw] by (simp add: thread_iter_memchunk)
  note tr = transmit_write_trace [OF tw]
  have "actions_of (thread_iter x ob u) =
      (if obs_rewind_requested ob then [Sink_process_rewind 0] else []) @
      [Rtclock_now, Stream_get_state (stream u)] @ actions_of (transmit ob u) @ [Rtpoll_run]"
    using g c o tr by (simp add: thread_iter_actions)
  then show ?thesis using mc tr by simp
qed

subsection \<open>Write, then release\<close>

text \<open>
  Claim C4. An iteration that writes to the stream has this trace and no other: the
  queries, the render if no cell was held, then the acquire of the block of the cell it
  writes, the write of that cell's index and length (which is not 0) at offset 0, the
  release and the unref of that same block, the warning with the write's return code
  exactly when that code is not 0, and the poll; and it ends with the cell reset. The
  return code of the write changes neither the status nor the state the iteration ends
  with: a failed write adds its warning to the trace and nothing else.
\<close>

theorem write_then_release:
  "(list_ex is_write (actions_of (thread_iter x ob u)) \<longrightarrow>
      memchunk (state_of (thread_iter x ob u)) = pa_memchunk_reset \<and>
      0 < length_mc (cell_written ob u) \<and>
      actions_of (thread_iter x ob u) =
        (if obs_rewind_requested ob then [Sink_process_rewind 0] else []) @
        [Rtclock_now, Stream_get_state (stream u),
         Stream_is_corked (stream u), Stream_writable_size (stream u)] @
        (if length_mc (memchunk u) \<le> 0 then [Sink_render (obs_writable ob)] else []) @
        [Memblock_acquire (memblock (cell_written ob u)),
         Stream_write (stream u) (index_mc (cell_written ob u)) (length_mc (cell_written ob u)) 0,
         Memblock_release (memblock (cell_written ob u)),
         Memblock_unref (memblock (cell_written ob u))] @
        (if obs_write_ret ob \<noteq> 0 then [Log_warn (obs_write_ret ob)] else []) @
        [Rtpoll_run]) \<and>
   (list_ex is_write (actions_of (thread_iter x (ob\<lparr>obs_write_ret := r\<rparr>) u)) \<and> r \<noteq> 0 \<longrightarrow>
      Log_warn r \<in> set (actions_of (thread_iter x (ob\<lparr>obs_write_ret := r\<rparr>) u))) \<and>
   status_of (thread_iter x (ob\<lparr>obs_write_ret := r\<rparr>) u) =
     status_of (thread_iter x (ob\<lparr>obs_write_ret := 0\<rparr>) u) \<and>
   state_of (thread_iter x (ob\<lparr>obs_write_ret := r\<rparr>) u) =
     state_of (thread_iter x (ob\<lparr>obs_write_ret := 0\<rparr>) u) \<and>
   filter (\<lambda>a. a \<noteq> Log_warn r) (actions_of (thread_iter x (ob\<lparr>obs_write_ret := r\<rparr>) u)) =
     actions_of (thread_iter x (ob\<lparr>obs_write_ret := 0\<rparr>) u)"
proof -
  have warn: "Log_warn r \<in> set (actions_of (thread_iter x (ob\<lparr>obs_write_ret := r\<rparr>) u))"
    if w: "list_ex is_write (actions_of (thread_iter x (ob\<lparr>obs_write_ret := r\<rparr>) u))"
      and r: "r \<noteq> 0"
  proof -
    have "actions_of (thread_iter x (ob\<lparr>obs_write_ret := r\<rparr>) u) =
        (if obs_rewind_requested ob then [Sink_process_rewind 0] else []) @
        [Rtclock_now, Stream_get_state (stream u),
         Stream_is_corked (stream u), Stream_writable_size (stream u)] @
        (if length_mc (memchunk u) \<le> 0 then [Sink_render (obs_writable ob)] else []) @
        [Memblock_acquire (memblock (cell_written ob u)),
         Stream_write (stream u) (index_mc (cell_written ob u)) (length_mc (cell_written ob u)) 0,
         Memblock_release (memblock (cell_written ob u)),
         Memblock_unref (memblock (cell_written ob u))] @
        [Log_warn r] @ [Rtpoll_run]"
      using thread_iter_write_trace [OF w] r by (simp add: cell_written_def)
    then show ?thesis by simp
  qed
  show ?thesis
    using thread_iter_write_trace [of x ob u] warn
      thread_iter_write_ret [where x = x and ob = ob and r = r and u = u]
    by blast
qed

theorem write_then_release_witness:
  "list_ex is_write (actions_of (thread_iter ext_ex (ob_ex\<lparr>obs_write_ret := - 5\<rparr>) u_ex)) \<and>
   memchunk (state_of (thread_iter ext_ex (ob_ex\<lparr>obs_write_ret := - 5\<rparr>) u_ex)) =
     pa_memchunk_reset \<and>
   cell_written (ob_ex\<lparr>obs_write_ret := - 5\<rparr>) u_ex =
     \<lparr>memblock = Some 7, index_mc = 0, length_mc = 4096\<rparr> \<and>
   actions_of (thread_iter ext_ex (ob_ex\<lparr>obs_write_ret := - 5\<rparr>) u_ex) =
     [Rtclock_now, Stream_get_state (Some 6), Stream_is_corked (Some 6),
      Stream_writable_size (Some 6), Sink_render 4096, Memblock_acquire (Some 7),
      Stream_write (Some 6) 0 4096 0, Memblock_release (Some 7), Memblock_unref (Some 7),
      Log_warn (- 5), Rtpoll_run] \<and>
   Log_warn (- 5) \<in> set (actions_of (thread_iter ext_ex (ob_ex\<lparr>obs_write_ret := - 5\<rparr>) u_ex)) \<and>
   state_of (thread_iter ext_ex (ob_ex\<lparr>obs_write_ret := - 5\<rparr>) u_ex) =
     state_of (thread_iter ext_ex (ob_ex\<lparr>obs_write_ret := 0\<rparr>) u_ex)"
proof -
  have w: "list_ex is_write (actions_of (thread_iter ext_ex (ob_ex\<lparr>obs_write_ret := - 5\<rparr>) u_ex))"
    by (simp add: thread_iter_ex_warn)
  have cw: "cell_written (ob_ex\<lparr>obs_write_ret := - 5\<rparr>) u_ex =
     \<lparr>memblock = Some 7, index_mc = 0, length_mc = 4096\<rparr>"
    by (simp add: cell_written_def ex_defs)
  show ?thesis
    using write_then_release [where x = ext_ex and ob = "ob_ex\<lparr>obs_write_ret := - 5\<rparr>"
        and u = u_ex and r = "- 5"] w cw
    by (simp add: thread_iter_ex_warn)
qed

lemma thread_iter_status:
  "status_of (thread_iter x ob u) \<noteq> Abort \<Longrightarrow>
     status_of (thread_iter x ob u) = poll_status (obs_poll ob)"
  by (cases "transmit ob u")
     (auto simp: thread_iter_def Let_def split: option.splits bool.splits if_splits)

lemma thread_loop_append:
  "thread_loop x pre u = (Continue, u1, a1) \<Longrightarrow>
     thread_loop x (pre @ obs) u =
       (case thread_loop x obs u1 of (st, u2, b) \<Rightarrow> (st, u2, a1 @ b))"
proof (induction pre arbitrary: u a1)
  case Nil
  then show ?case by (simp split: prod.splits)
next
  case (Cons ob pre)
  obtain st v a where it: "thread_iter x ob u = (st, v, a)"
    by (cases "thread_iter x ob u") auto
  show ?case
  proof (cases st)
    case Continue
    obtain st' v' b where lp: "thread_loop x pre v = (st', v', b)"
      by (cases "thread_loop x pre v") auto
    from Cons.prems it Continue lp have eq: "st' = Continue" "v' = u1" "a1 = a @ b"
      by simp_all
    have "thread_loop x (pre @ obs) v =
            (case thread_loop x obs u1 of (st, u2, c) \<Rightarrow> (st, u2, b @ c))"
      using Cons.IH [of v b] lp eq by simp
    then show ?thesis using it Continue eq by (simp split: prod.splits)
  next
    case Finish
    with Cons.prems it show ?thesis by simp
  next
    case Fail
    with Cons.prems it show ?thesis by simp
  next
    case Abort
    with Cons.prems it show ?thesis by simp
  qed
qed

lemma wait_for_absent:
  "code \<notin> set inq \<Longrightarrow> pa_asyncmsgq_wait_for inq code = None"
  by (induction inq) auto

lemma wait_for_present:
  "code \<notin> set d \<Longrightarrow> pa_asyncmsgq_wait_for (d @ code # later) code = Some (d, later)"
  by (induction d) auto

subsection \<open>The failure path\<close>

text \<open>
  Claim C5. When the poll of an iteration returns a negative code, the thread posts
  the unload request and then waits for the shutdown message on its inbound queue. As
  long as that message does not arrive it does not end; the messages that arrive before
  it are discarded, with no effect on the state; after it the thread exits, and the
  observations of further iterations are never read.
\<close>

theorem shutdown_draining:
  assumes "thread_loop x pre (u\<lparr>timestamp := t0\<rparr>) = (Continue, u1, a1)"
    and "thread_iter x ob u1 = (st, u2, a2)"
    and "st \<noteq> Abort"
    and "obs_poll ob < 0"
  shows
    "(PA_MESSAGE_SHUTDOWN \<notin> set inq \<longrightarrow>
        thread_func x t0 (pre @ ob # rest) inq u =
          (Blocked_for_ever, u2,
           [Log_debug ''Tunnelstream: Thread starting up'', Thread_mq_install, Rtclock_now] @
           a1 @ a2 @
           [Asyncmsgq_post PA_CORE_MESSAGE_UNLOAD_MODULE, Asyncmsgq_wait_for PA_MESSAGE_SHUTDOWN] @
           map Msg_discarded inq)) \<and>
     (PA_MESSAGE_SHUTDOWN \<notin> set d \<longrightarrow>
        thread_func x t0 (pre @ ob # rest) (d @ PA_MESSAGE_SHUTDOWN # later) u =
          (Exited, u2,
           [Log_debug ''Tunnelstream: Thread starting up'', Thread_mq_install, Rtclock_now] @
           a1 @ a2 @
           [Asyncmsgq_post PA_CORE_MESSAGE_UNLOAD_MODULE, Asyncmsgq_wait_for PA_MESSAGE_SHUTDOWN] @
           map Msg_discarded d @ [Log_debug ''Thread shutting down'']))"
proof -
  have "st = poll_status (obs_poll ob)"
    using thread_iter_status [of x ob u1] assms(2,3) by simp
  then have st: "st = Fail" using assms(4) by (simp add: poll_status_def)
  have "thread_loop x (ob # rest) u1 = (Fail, u2, a2)"
    using assms(2) st by simp
  then have lp: "thread_loop x (pre @ ob # rest) (u\<lparr>timestamp := t0\<rparr>) = (Fail, u2, a1 @ a2)"
    using thread_loop_append [OF assms(1), of "ob # rest"] by simp
  show ?thesis
    by (simp add: thread_func_def lp wait_for_absent wait_for_present del: thread_loop.simps)
qed

theorem shutdown_draining_witness:
  "status_of (thread_func ext_ex 0 [ob_ex, ob_ex\<lparr>obs_poll := - 1\<rparr>]
       [PA_SINK_MESSAGE_GET_LATENCY] u_ex) = Blocked_for_ever \<and>
   status_of (thread_func ext_ex 0 [ob_ex, ob_ex\<lparr>obs_poll := - 1\<rparr>]
       [PA_SINK_MESSAGE_GET_LATENCY, PA_MESSAGE_SHUTDOWN, SINK_MESSAGE_PASS_SOCKET] u_ex) = Exited"
proof -
  have u0: "u_ex\<lparr>timestamp := 0\<rparr> = u_ex"
    by (simp add: u_ex_def userdata0_def)
  have a: "thread_loop ext_ex [ob_ex] (u_ex\<lparr>timestamp := 0\<rparr>) =
             (Continue, u_ex, actions_of (thread_iter ext_ex ob_ex u_ex))"
    by (simp add: u0 thread_iter_ex)
  have b: "thread_iter ext_ex (ob_ex\<lparr>obs_poll := - 1\<rparr>) u_ex =
             (Fail, u_ex, actions_of (thread_iter ext_ex (ob_ex\<lparr>obs_poll := - 1\<rparr>) u_ex))"
    by (simp add: thread_iter_ex_fail)
  have c: "Fail \<noteq> Abort" by simp
  have d: "obs_poll (ob_ex\<lparr>obs_poll := - 1\<rparr>) < 0" by simp
  show ?thesis
    using shutdown_draining [OF a b c d, where rest = "[]"
        and inq = "[PA_SINK_MESSAGE_GET_LATENCY]" and d = "[PA_SINK_MESSAGE_GET_LATENCY]"
        and later = "[SINK_MESSAGE_PASS_SOCKET]"]
    by simp
qed

lemma transmit_stream: "stream (state_of (transmit ob u)) = stream u"
  by (simp add: transmit_def Let_def)

lemma transmit_context: "context_p (state_of (transmit ob u)) = context_p u"
  by (simp add: transmit_def Let_def)

lemma transmit_no_connect: "\<not> list_ex is_connect (actions_of (transmit ob u))"
  by (simp add: transmit_def Let_def)

lemma thread_iter_stream: "stream (state_of (thread_iter x ob u)) = stream u"
  using thread_iter_frame [of stream x ob u] by (simp add: transmit_stream)

lemma thread_iter_context: "context_p (state_of (thread_iter x ob u)) = context_p u"
  using thread_iter_frame [of context_p x ob u] by (simp add: transmit_context)

lemma thread_iter_no_connect: "\<not> list_ex is_connect (actions_of (thread_iter x ob u))"
  using transmit_no_connect [of ob u]
  by (simp add: thread_iter_actions split: option.splits bool.splits)

lemma gate_null_stream:
  assumes "stream u = None"
    and "\<forall>q. null_stream_state x = Reports q \<longrightarrow> \<not> PA_STREAM_IS_GOOD q"
  shows "gate x ob u \<noteq> Some True"
  using assms by (auto simp: gate_def pa_stream_get_state_def split: stream_query.splits)

lemma thread_loop_inv:
  assumes step: "\<And>ob v. I v \<Longrightarrow> I (state_of (thread_iter x ob v)) \<and>
                     \<not> list_ex P (actions_of (thread_iter x ob v))"
  shows "I u \<Longrightarrow> I (state_of (thread_loop x obs u)) \<and>
                 \<not> list_ex P (actions_of (thread_loop x obs u))"
proof (induction obs arbitrary: u)
  case Nil
  then show ?case by simp
next
  case (Cons ob obs)
  obtain st v a where it: "thread_iter x ob u = (st, v, a)"
    by (cases "thread_iter x ob u") auto
  have v: "I v" "\<not> list_ex P a"
    using step [OF Cons.prems, of ob] it by simp_all
  show ?case
  proof (cases st)
    case Continue
    obtain st' v' b where lp: "thread_loop x obs v = (st', v', b)"
      by (cases "thread_loop x obs v") auto
    have "I v' \<and> \<not> list_ex P b"
      using Cons.IH [OF v(1)] lp by simp
    then show ?thesis using it Continue lp v by simp
  next
    case Finish
    then show ?thesis using it v by simp
  next
    case Fail
    then show ?thesis using it v by simp
  next
    case Abort
    then show ?thesis using it v by simp
  qed
qed

subsection \<open>A cleared stream slot\<close>

text \<open>
  The render loop skips the transmit branch for a cleared slot only as far as the
  library's answer for the NULL handle lets it.
\<close>

lemma thread_loop_null_stream:
  assumes "stream u = None"
    and "\<forall>q. null_stream_state x = Reports q \<longrightarrow> \<not> PA_STREAM_IS_GOOD q"
  shows "stream (state_of (thread_loop x obs u)) = None \<and>
         \<not> list_ex is_write (actions_of (thread_loop x obs u))"
proof -
  have step: "stream (state_of (thread_iter x ob v)) = None \<and>
              \<not> list_ex is_write (actions_of (thread_iter x ob v))"
    if "stream v = None" for ob v
    using that gate_null_stream [OF that assms(2), of ob]
    by (simp add: thread_iter_stream thread_iter_write)
  show ?thesis
    by (rule thread_loop_inv [where I = "\<lambda>v. stream v = None" and P = is_write])
       (simp_all add: step assms(1))
qed

text \<open>
  Claim C6. The claim is that once the stream is Failed or Terminated the handle is
  released, the slot cleared, and every later iteration of the render loop sees the
  cleared slot and attempts no write. The callback does release the handle and clear
  the slot, but it leaves \<open>connected\<close> set, and the loop never tests the slot: with the
  sink opened, the next iteration passes the NULL handle to \<open>pa_stream_get_state\<close>.
  With a library that stops on a NULL handle the thread stops inside that call, in the
  first iteration after the callback; with one that called the NULL handle's state
  Running, the same iteration would ask the NULL handle for its writable size, render,
  and write to it. In neither case does the loop go on round, skipping the branch.
\<close>

theorem stream_cleared_loop_asks_library:
  "stream_state_callback 6 PA_STREAM_FAILED u_ex =
     (True, u_ex\<lparr>stream := None\<rparr>, [Log_debug ''Context failed.'', Stream_unref 6]) \<and>
   connected (u_ex\<lparr>stream := None\<rparr>) \<and>
   thread_loop ext_ex [ob_ex, ob_ex] (u_ex\<lparr>stream := None\<rparr>) =
     (Abort, u_ex\<lparr>stream := None\<rparr>, [Rtclock_now, Stream_get_state None]) \<and>
   thread_iter (ext_ex\<lparr>null_stream_state := Reports PA_STREAM_RUNNING\<rparr>) ob_ex
       (u_ex\<lparr>stream := None\<rparr>) =
     (Continue, u_ex\<lparr>stream := None\<rparr>,
      [Rtclock_now, Stream_get_state None, Stream_is_corked None, Stream_writable_size None,
       Sink_render 4096, Memblock_acquire (Some 7), Stream_write None 0 4096 0,
       Memblock_release (Some 7), Memblock_unref (Some 7), Rtpoll_run])"
  by (simp add: stream_state_callback_def thread_iter_def gate_def transmit_def
        pa_stream_get_state_def poll_status_def sink_process_msg_cb_def Let_def ex_defs)

subsection \<open>A failed connection\<close>

text \<open>
  Claim C7. When the connection is Failed or Terminated, the callback unrefs the
  handle, clears it and clears \<open>connected\<close>, and calls nothing else; afterwards the handle
  stays clear through any number of iterations of the render loop, none of which
  creates or connects a context or a stream.
\<close>

theorem context_failed_no_retry:
  assumes "context_p u = Some c"
    and "st = PA_CONTEXT_FAILED \<or> st = PA_CONTEXT_TERMINATED"
  shows "(\<exists>msg. context_state_callback c st ns u =
                   (True, u\<lparr>context_p := None, connected := False\<rparr>,
                    [Log_debug msg, Context_unref c])) \<and>
         context_p (state_of (thread_loop x obs (u\<lparr>context_p := None, connected := False\<rparr>))) = None \<and>
         \<not> list_ex is_connect
             (actions_of (thread_loop x obs (u\<lparr>context_p := None, connected := False\<rparr>)))"
proof -
  have cb: "\<exists>msg. context_state_callback c st ns u =
                   (True, u\<lparr>context_p := None, connected := False\<rparr>,
                    [Log_debug msg, Context_unref c])"
    using assms by (auto simp: context_state_callback_def)
  have lp: "context_p (state_of (thread_loop x obs (u\<lparr>context_p := None, connected := False\<rparr>))) = None \<and>
        \<not> list_ex is_connect
            (actions_of (thread_loop x obs (u\<lparr>context_p := None, connected := False\<rparr>)))"
    by (rule thread_loop_inv [where I = "\<lambda>v. context_p v = None" and P = is_connect])
       (simp_all add: thread_iter_context thread_iter_no_connect)
  show ?thesis using cb lp by blast
qed

theorem context_failed_no_retry_witness:
  "context_state_callback 5 PA_CONTEXT_TERMINATED None u_ex =
     (True, u_ex\<lparr>context_p := None, connected := False\<rparr>,
      [Log_debug ''Context terminated.'', Context_unref 5]) \<and>
   \<not> list_ex is_connect
       (actions_of (thread_loop ext_ex [ob_ex, ob_ex]
          (u_ex\<lparr>context_p := None, connected := False\<rparr>)))"
  using context_failed_no_retry [where u = u_ex and c = 5 and st = PA_CONTEXT_TERMINATED
      and ns = None and x = ext_ex and obs = "[ob_ex, ob_ex]"]
  by (simp add: context_state_callback_def u_ex_def del: thread_loop.simps)

subsection \<open>The latency query\<close>

text \<open>
  When the latency call returns, the handler stores 0 for an unlinked sink and for a
  failed query, and the reported latency otherwise.
\<close>

lemma latency_returning_call:
  "(\<not> PA_SINK_IS_LINKED x st \<longrightarrow>
      sink_process_msg_cb x st lat PA_SINK_MESSAGE_GET_LATENCY u = (Handled 0 (Some 0), u)) \<and>
   (PA_SINK_IS_LINKED x st \<and> pa_stream_get_latency x lat (stream u) = Some l \<and> lat_ret l < 0 \<longrightarrow>
      sink_process_msg_cb x st lat PA_SINK_MESSAGE_GET_LATENCY u = (Handled 0 (Some 0), u)) \<and>
   (PA_SINK_IS_LINKED x st \<and> pa_stream_get_latency x lat (stream u) = Some l \<and> \<not> lat_ret l < 0 \<longrightarrow>
      sink_process_msg_cb x st lat PA_SINK_MESSAGE_GET_LATENCY u =
        (Handled 0 (Some (lat_usec l)), u))"
  by (simp add: sink_process_msg_cb_def)

text \<open>
  Claim C8. The claim is that for every latency message the handler stores 0 and
  returns success when the stream is unlinked or unreachable, and the reported latency
  otherwise. The handler tests the sink's state only. With the sink linked and no
  stream (as \<open>pa__init\<close> leaves the userdata until the connection is ready, and as the
  stream callback leaves it after a failure) it passes the NULL handle to
  \<open>pa_stream_get_latency\<close>: with a library that stops on a NULL handle the handler does
  not return, and with one that answered for it the handler would store that answer.
  It never stores 0 of its own accord for an absent stream.
\<close>

theorem latency_null_stream:
  "fst (pa__init (e_ex\<lparr>env_remote_server := Some ''remote''\<rparr>) \<lparr>m_userdata = None\<rparr> w_ex) = 0 \<and>
   m_userdata (state_of (pa__init (e_ex\<lparr>env_remote_server := Some ''remote''\<rparr>)
       \<lparr>m_userdata = None\<rparr> w_ex)) = Some u_init \<and>
   stream u_init = None \<and>
   PA_SINK_IS_LINKED ext_ex True \<and>
   sink_process_msg_cb ext_ex True lat_ex PA_SINK_MESSAGE_GET_LATENCY u_init =
     (Handler_aborts, u_init) \<and>
   sink_process_msg_cb ext_ex True lat_ex PA_SINK_MESSAGE_GET_LATENCY
       (state_of (stream_state_callback 6 PA_STREAM_FAILED u_ex)) =
     (Handler_aborts, u_ex\<lparr>stream := None\<rparr>) \<and>
   sink_process_msg_cb
       (ext_ex\<lparr>null_stream_latency := Some \<lparr>lat_ret = 0, lat_usec = 999, lat_negative = 0\<rparr>\<rparr>)
       True lat_ex PA_SINK_MESSAGE_GET_LATENCY u_init =
     (Handled 0 (Some 999), u_init)"
  by (simp add: pa__init_def init_sink_def init_context_def alloc_def release_def emit_def
        e_ex_def w_ex_def u_init_def sink_process_msg_cb_def pa_stream_get_latency_def
        stream_state_callback_def Let_def ex_defs)

lemma release_alloc: "release r (emit a (alloc r w)) = emit a w"
  by (simp add: release_def emit_def alloc_def)

subsection \<open>Activation without a remote server\<close>

text \<open>
  Claim C9. Without the \<open>remote_server\<close> argument \<open>pa__init\<close> returns -1; the module's
  userdata stays absent, nothing is registered and every resource allocated on the way
  has been released: but for the logged error the world is as before.
\<close>

theorem missing_remote_server:
  assumes "env_remote_server e = None" and "m_userdata m = None"
  shows "\<exists>msg. pa__init e m w = (- 1, m, w\<lparr>trace := trace w @ [Log_error msg]\<rparr>)"
proof (cases "env_modargs e")
  case None
  then have "pa__init e m w =
      (- 1, m, w\<lparr>trace := trace w @ [Log_error ''Failed to parse module arguments.'']\<rparr>)"
    using assms(2) by (simp add: pa__init_def init_fail_def pa__done_def emit_def)
  then show ?thesis by blast
next
  case (Some ma)
  have dn: "pa__done m v = (m, v)" for v
    using assms(2) by (simp add: pa__done_def)
  have fl: "init_fail True False m (emit (Log_error s) (alloc Modargs w)) =
              (- 1, m, w\<lparr>trace := trace w @ [Log_error s]\<rparr>)" for s
    by (simp add: init_fail_def release_alloc dn) (simp add: emit_def)
  show ?thesis
  proof (cases "env_spec_ret e < 0")
    case True
    then have "pa__init e m w =
        (- 1, m, w\<lparr>trace := trace w @
           [Log_error ''Invalid sample format specification or channel map'']\<rparr>)"
      using Some by (simp add: pa__init_def Let_def fl)
    then show ?thesis by blast
  next
    case False
    then have "pa__init e m w =
        (- 1, m, w\<lparr>trace := trace w @ [Log_error ''No remote_server given!'']\<rparr>)"
      using Some assms(1) by (simp add: pa__init_def Let_def fl)
    then show ?thesis by blast
  qed
qed

theorem missing_remote_server_witness:
  "pa__init e_ex \<lparr>m_userdata = None\<rparr> w_ex =
     (- 1, \<lparr>m_userdata = None\<rparr>, w_ex\<lparr>trace := [Log_error ''No remote_server given!'']\<rparr>)"
  using missing_remote_server [where e = e_ex and m = "\<lparr>m_userdata = None\<rparr>" and w = w_ex]
  by (simp add: pa__init_def init_fail_def pa__done_def alloc_def release_def emit_def
        e_ex_def w_ex_def Let_def)

subsection \<open>The frame of the stream callback\<close>

text \<open>
  Claim C10. On Failed or Terminated the stream callback changes the stream handle
  only: every other field keeps its value, \<open>connected\<close> among them. So when \<open>connected\<close>
  is set, the gate of the render loop is afterwards decided by the library's answer for
  the state of the NULL handle.
\<close>

theorem stream_callback_frame:
  assumes "stream u = Some s"
    and "st = PA_STREAM_FAILED \<or> st = PA_STREAM_TERMINATED"
  shows "state_of (stream_state_callback s st u) = u\<lparr>stream := None\<rparr> \<and>
         connected (state_of (stream_state_callback s st u)) = connected u \<and>
         (connected u \<longrightarrow>
            gate x ob (state_of (stream_state_callback s st u)) =
              (case null_stream_state x of
                 Aborts \<Rightarrow> None
               | Reports q \<Rightarrow> Some (PA_STREAM_IS_GOOD q \<and> PA_SINK_IS_OPENED x (obs_sink_state ob))))"
  using assms by (auto simp: stream_state_callback_def gate_def pa_stream_get_state_def)

theorem stream_callback_frame_witness:
  "state_of (stream_state_callback 6 PA_STREAM_TERMINATED u_ex) = u_ex\<lparr>stream := None\<rparr> \<and>
   connected (state_of (stream_state_callback 6 PA_STREAM_TERMINATED u_ex)) \<and>
   gate ext_ex ob_ex (state_of (stream_state_callback 6 PA_STREAM_TERMINATED u_ex)) = None"
proof -
  have s: "stream u_ex = Some 6" and c: "connected u_ex"
    by (simp_all add: u_ex_def)
  have n: "null_stream_state ext_ex = Aborts"
    by (simp add: ext_ex_def)
  show ?thesis
    using stream_callback_frame [OF s, where st = PA_STREAM_TERMINATED and x = ext_ex
        and ob = ob_ex] c n
    by auto
qed

end
